theory Spec2Isabelle
  imports Main "HOL-Library.Word" "HOL-Library.Log_Nat"
begin

section \<open>Python values used by app.py\<close>

text \<open>
  A Python \<open>str\<close> is a sequence of code points: slicing (\<open>line[:64]\<close>) and
  \<open>splitlines\<close> count code points, not bytes. The literals of the source that are
  not ASCII are written out as their code points below.
\<close>

type_synonym pystr = "nat list"

definition ascii :: "string \<Rightarrow> pystr" where
  "ascii s = map of_char s"

text \<open>The exceptions (all subclasses of \<open>Exception\<close>) that the modelled calls raise.\<close>

datatype exn = FileNotFoundError | ImportError | ValueError | OtherException nat

subsection \<open>Floats\<close>

text \<open>
  A finite Python float is a rational number; an arithmetic operation returns the exact
  result rounded to the nearest number with a 53-bit significand, ties to even. The
  exponent range is not modelled: the operands in app.py are scroll bar values and
  frame dimensions, whose quotients are far from overflow and underflow.
\<close>

definition ilog2 :: "rat \<Rightarrow> int" where
  "ilog2 x = (let (a, b) = quotient_of x; e0 = bitlen a - bitlen b
              in if 2 powi e0 \<le> x then e0 else e0 - 1)"

definition round_half_even :: "rat \<Rightarrow> int" where
  "round_half_even t = (let f = \<lfloor>t\<rfloor>; d = t - of_int f
     in if d < 1 / 2 then f else if 1 / 2 < d then f + 1 else if even f then f else f + 1)"

definition fl :: "rat \<Rightarrow> rat" where
  "fl x = (if x = 0 then 0
           else (let u = 2 powi (ilog2 \<bar>x\<bar> - 52)
                 in sgn x * of_int (round_half_even (\<bar>x\<bar> / u)) * u))"

definition float_of_int :: "int \<Rightarrow> rat" where
  "float_of_int n = fl (of_int n)"

text \<open>\<open>x / y\<close> on floats; both call sites divide by a non-zero float.\<close>

definition float_div :: "rat \<Rightarrow> rat \<Rightarrow> rat" where
  "float_div x y = fl (x / y)"

text \<open>\<open>int(x)\<close> on a float truncates towards zero.\<close>

definition py_int :: "rat \<Rightarrow> int" where
  "py_int x = (if 0 \<le> x then \<lfloor>x\<rfloor> else \<lceil>x\<rceil>)"

text \<open>
  A float32 element of the segmentation mask. Every comparison with NaN is false.
\<close>

datatype f32 = Finite rat | PosInf | NegInf | NaN

fun f32_gt :: "f32 \<Rightarrow> rat \<Rightarrow> bool" where
  "f32_gt (Finite q) c = (c < q)"
| "f32_gt PosInf c = True"
| "f32_gt NegInf c = False"
| "f32_gt NaN c = False"

subsection \<open>Arrays of pixels\<close>

text \<open>
  An \<open>h \<times> w \<times> c\<close> uint8 array is the list of its \<open>h\<close> rows, a row the list of its
  \<open>w\<close> pixels, a pixel the tuple of its \<open>c\<close> channels. numpy arrays are rectangular
  (\<open>rect\<close>); \<open>frame.shape[:2]\<close> is \<open>(height, width)\<close>.
\<close>

type_synonym u8 = "8 word"
type_synonym 'a image = "'a list list"
type_synonym bgr = "u8 \<times> u8 \<times> u8"
type_synonym rgb = "u8 \<times> u8 \<times> u8"
type_synonym rgba = "u8 \<times> u8 \<times> u8 \<times> u8"

definition height :: "'a image \<Rightarrow> nat" where
  "height img = length img"

definition width :: "'a image \<Rightarrow> nat" where
  "width img = (case img of [] \<Rightarrow> 0 | row # _ \<Rightarrow> length row)"

definition rect :: "'a image \<Rightarrow> bool" where
  "rect img = (\<forall>row \<in> set img. length row = width img)"

text \<open>
  A slice \<open>xs[start:stop]\<close> with integer bounds: a negative bound counts from the end,
  and both bounds are clamped to the length.
\<close>

definition slice_index :: "int \<Rightarrow> nat \<Rightarrow> nat" where
  "slice_index i n = (if i < 0 then nat (max 0 (i + int n)) else min (nat i) n)"

definition py_slice :: "'a list \<Rightarrow> int \<Rightarrow> int \<Rightarrow> 'a list" where
  "py_slice xs start stop =
     (let a = slice_index start (length xs); b = slice_index stop (length xs)
      in take (b - a) (drop a xs))"

text \<open>\<open>cv2.flip(frame, 1)\<close> reverses every row.\<close>

definition cv_flip :: "'a image \<Rightarrow> 'a image" where
  "cv_flip frame = map rev frame"

text \<open>\<open>cv2.cvtColor(frame, cv2.COLOR_BGR2RGB)\<close> swaps the first and third channel.\<close>

definition cvtColor_BGR2RGB :: "bgr image \<Rightarrow> rgb image" where
  "cvtColor_BGR2RGB frame = map (map (\<lambda>(b, g, r). (r, g, b))) frame"

text \<open>\<open>(mask > 0.5).astype(np.uint8) * 255\<close>\<close>

definition mask_alpha :: "f32 image \<Rightarrow> u8 image" where
  "mask_alpha msk = map (map (\<lambda>m. (if f32_gt m (1 / 2) then 1 else 0) * 255)) msk"

text \<open>
  \<open>np.dstack((rgb, alpha))\<close>: the two arrays must agree in height and width,
  otherwise numpy raises \<open>ValueError\<close>.
\<close>

definition same_shape :: "'a image \<Rightarrow> 'b image \<Rightarrow> bool" where
  "same_shape a b = (map length a = map length b)"

definition dstack :: "rgb image \<Rightarrow> u8 image \<Rightarrow> exn + rgba image" where
  "dstack img alpha =
     (if same_shape img alpha
      then Inr (map2 (map2 (\<lambda>(r, g, b) a. (r, g, b, a))) img alpha)
      else Inl ValueError)"

text \<open>
  What a \<open>QImage\<close> shows. A placeholder is the RGB888 image of the black
  \<open>width \<times> height\<close> canvas after the listed \<open>cv2.putText\<close> calls \<open>(text, x, y)\<close>, in
  order; font, scale, colour and thickness are constants of the source, and the
  glyphs are OpenCV's.
\<close>

datatype qimage =
    RGB888 "rgb image"
  | RGBA8888 "rgba image"
  | Placeholder nat nat "(pystr \<times> int \<times> int) list"

text \<open>
  \<open>str.splitlines()\<close>: a line ends at \<open>\n\<close>, \<open>\r\<close>, \<open>\r\n\<close>, \<open>\v\<close>, \<open>\f\<close>,
  \<open>\x1c\<close>, \<open>\x1d\<close>, \<open>\x1e\<close>, \<open>\x85\<close>, U+2028 or U+2029; the breaks are
  dropped, and there is no empty last line after a final break.
\<close>

definition is_linebreak :: "nat \<Rightarrow> bool" where
  "is_linebreak c = (c \<in> {10, 11, 12, 13, 28, 29, 30, 133, 8232, 8233})"

fun splitlines_from :: "pystr \<Rightarrow> pystr \<Rightarrow> pystr list" where
  "splitlines_from cur [] = (if cur = [] then [] else [rev cur])"
| "splitlines_from cur [c] =
     (if is_linebreak c then [rev cur] else [rev (c # cur)])"
| "splitlines_from cur (c # d # cs) =
     (if c = 13 \<and> d = 10 then rev cur # splitlines_from [] cs
      else if is_linebreak c then rev cur # splitlines_from [] (d # cs)
      else splitlines_from (c # cur) (d # cs))"

definition splitlines :: "pystr \<Rightarrow> pystr list" where
  "splitlines s = splitlines_from [] s"

section \<open>The widget's state and its environment\<close>

record app_config =
  cfg_width :: nat
  cfg_height :: nat
  blur_kernel :: int
  zoom_min :: int
  zoom_max :: int

definition AppConfig :: app_config where
  "AppConfig = \<lparr>cfg_width = 320, cfg_height = 320, blur_kernel = 21,
                 zoom_min = 100, zoom_max = 300\<rparr>"

datatype shape = Square | Circle

text \<open>Which backend a \<open>cv2.VideoCapture\<close> was opened with.\<close>

datatype capture = AVFoundationCapture | DefaultCapture

datatype segmenter = SelfieSegmentation nat

text \<open>A log record: the format string of the call and its arguments.\<close>

datatype log_record = LogInfo string "pystr list" | LogException string "pystr list"

text \<open>
  The fields of \<open>CameraOverlay\<close> that the frame pipeline reads or writes, what the
  label shows (\<open>pixmap\<close>), the debug text file, the log, the resource directory given to
  mediapipe, and two counters of the calls of \<open>_ensure_camera_permission\<close> and
  \<open>_open_camera\<close>. The label has the fixed size of the configuration.
\<close>

record state =
  config :: app_config
  shape :: shape
  cutout_enabled :: bool
  camera_error_message :: "pystr option"
  permission_requested :: bool
  open_retry_counter :: int
  cap :: "capture option"
  segmenter :: "segmenter option"
  zoom_bar_value :: int
  shape_button_text :: pystr
  cutout_button_text :: pystr
  pixmap :: "qimage option"
  debug_text :: "pystr option"
  log :: "log_record list"
  resource_dir :: "pystr option"
  permission_checks :: nat
  open_attempts :: nat

datatype auth_status = Authorized | Denied | Restricted | NotDetermined

datatype plist_result = PlistUnreadable | PlistNoUsageDescription | PlistOk

text \<open>
  What the platform, the camera, OpenCV's resampling and mediapipe answer while one
  event handler runs.
\<close>

record env =
  is_darwin :: bool
  is_frozen :: bool
  avfoundation_importable :: bool
  authorization_status :: auth_status
  avfoundation_opens :: bool
  fallback_opens :: bool
  cap_isOpened :: bool
  cap_read :: "exn + bool \<times> bgr image"
  cv_resize :: "bgr image \<Rightarrow> nat \<Rightarrow> nat \<Rightarrow> exn + bgr image"
  segmenter_process :: "rgb image \<Rightarrow> exn + f32 image option"
  debug_text_writable :: bool
  resource_util_importable :: bool
  resources_dir :: pystr
  frameworks_dir :: pystr
  isdir_modules_resources :: bool
  isdir_modules_frameworks :: bool
  isfile_binary_resources :: bool
  isfile_binary_frameworks :: bool
  set_resource_dir_error :: "exn option"
  new_segmenter :: "exn + segmenter"
  info_plist_path :: pystr
  info_plist :: plist_result

section \<open>String literals of the source\<close>

text \<open>Line 190, the default text when the camera cannot be opened.\<close>

definition msg_cannot_open :: pystr where
  "msg_cannot_open =
     [52852, 47700, 46972, 47484, 32, 50676, 32, 49688, 32, 50630, 49845, 45768,
     45796, 46]"

text \<open>Line 224, the text shown after an unexpected exception in a tick.\<close>

definition msg_generic_error :: pystr where
  "msg_generic_error =
     [50724, 47448, 44032, 32, 48156, 49373, 54664, 49845, 45768, 45796, 46, 32,
     47196, 44536, 47484, 32, 54869, 51064, 54616, 49464, 50836, 46]"

text \<open>Lines 240 and 273, camera permission switched off.\<close>

definition msg_permission_off :: pystr where
  "msg_permission_off =
     [52852, 47700, 46972, 32, 44428, 54620, 51060, 32, 44732, 51256, 32, 51080,
     49845, 45768, 45796, 46, 32, 49884, 49828, 53596, 32, 49444, 51221, 50640,
     49436, 32, 54728, 50857, 54616, 49464, 50836, 46]"

text \<open>Line 248, no backend opened the camera.\<close>

definition msg_check_permission :: pystr where
  "msg_check_permission =
     [52852, 47700, 46972, 32, 44428, 54620, 51012, 32, 54869, 51064, 54644, 32,
     51452, 49464, 50836, 46]"

text \<open>Lines 266 and 300, the AVFoundation module cannot be imported.\<close>

definition msg_no_avfoundation :: pystr where
  "msg_no_avfoundation =
     [65, 86, 70, 111, 117, 110, 100, 97, 116, 105, 111, 110, 32, 47784, 46280,
     51012, 32, 48520, 47084, 50732, 32, 49688, 32, 50630, 49845, 45768, 45796, 46,
     32, 50545, 51012, 32, 45796, 49884, 32, 48716, 46300, 54616, 49464, 50836, 46]"

text \<open>Line 402, segmenter initialisation failed.\<close>

definition msg_segmenter_init_failed :: pystr where
  "msg_segmenter_init_failed =
     [48176, 44221, 32, 51228, 44144, 32, 52488, 44592, 54868, 50640, 32, 49892,
     54056, 54664, 49845, 45768, 45796, 46]"

text \<open>Lines 417 and 420, the prefixes of the two Info.plist messages.\<close>

definition msg_plist_unreadable :: pystr where
  "msg_plist_unreadable =
     [73, 110, 102, 111, 46, 112, 108, 105, 115, 116, 47484, 32, 51069, 51012, 32,
     49688, 32, 50630, 49845, 45768, 45796, 58, 32]"

definition msg_plist_no_usage :: pystr where
  "msg_plist_no_usage =
     [52852, 47700, 46972, 32, 44428, 54620, 32, 49444, 47749, 51060, 32, 50630,
     49845, 45768, 45796, 58, 32]"

text \<open>Lines 76, 80, 308 and 318, the button texts.\<close>

definition text_shape_square :: pystr where
  "text_shape_square = [47784, 50577, 58, 32, 45348, 47784]"

definition text_shape_circle :: pystr where
  "text_shape_circle = [47784, 50577, 58, 32, 50896]"

definition text_cutout_on :: pystr where
  "text_cutout_on = [48176, 44221, 32, 51228, 44144, 58, 32, 79, 78]"

definition text_cutout_off :: pystr where
  "text_cutout_off = [48176, 44221, 32, 51228, 44144, 58, 32, 79, 70, 70]"

text \<open>Lines 382 to 387 and 394 to 397, the two messages about the model file.\<close>

definition msg_model_not_found :: "pystr \<Rightarrow> pystr \<Rightarrow> pystr" where
  "msg_model_not_found res_dir fw_dir =
     ascii ''mediapipe model not found.'' @ [10] @
     ascii ''searched: '' @ res_dir @ [10] @
     ascii ''searched: '' @ fw_dir @ [10] @
     ascii ''rebuild the app.''"

definition msg_model_missing :: pystr where
  "msg_model_missing = ascii ''mediapipe model missing.'' @ [10] @ ascii ''rebuild the app.''"

section \<open>The operations of CameraOverlay\<close>

subsection \<open>Placeholder\<close>

text \<open>
  \<open>_write_debug_text\<close> (lines 451 to 456): a failure to write the file is logged and
  goes no further.
\<close>

definition write_debug_text :: "env \<Rightarrow> pystr \<Rightarrow> state \<Rightarrow> state" where
  "write_debug_text e message s =
     (if debug_text_writable e then s\<lparr>debug_text := Some message\<rparr>
      else s\<lparr>log := log s @ [LogException ''failed to write debug text'' []]\<rparr>)"

text \<open>The loop of lines 441 to 444: one \<open>putText\<close> per line, 26 pixels apart.\<close>

fun put_lines :: "(pystr \<times> int \<times> int) list \<Rightarrow> int \<Rightarrow> pystr list \<Rightarrow> (pystr \<times> int \<times> int) list" where
  "put_lines canvas y [] = canvas"
| "put_lines canvas y (line # rest) = put_lines (canvas @ [(take 64 line, 10, y)]) (y + 26) rest"

text \<open>\<open>_render_placeholder\<close> (lines 435 to 449).\<close>

definition render_placeholder :: "env \<Rightarrow> pystr \<Rightarrow> state \<Rightarrow> state" where
  "render_placeholder e message s =
     (let s1 = write_debug_text e message s;
          w = cfg_width (config s1);
          h = cfg_height (config s1);
          lines = (if message \<noteq> [] then splitlines message else [ascii ''error'']);
          canvas = put_lines [] 24 (take 6 lines)
      in s1\<lparr>pixmap := Some (Placeholder w h canvas)\<rparr>)"

subsection \<open>Camera\<close>

text \<open>
  \<open>_ensure_camera_permission\<close> (lines 252 to 286). The completion handler of the
  access request only logs, later and on another thread; it is not part of the call.
\<close>

definition ensure_camera_permission :: "env \<Rightarrow> state \<Rightarrow> state" where
  "ensure_camera_permission e s0 =
     (let s = s0\<lparr>permission_checks := permission_checks s0 + 1\<rparr>
      in if \<not> is_darwin e then s
         else if \<not> avfoundation_importable e
         then s\<lparr>camera_error_message := Some msg_no_avfoundation\<rparr>
         else (case authorization_status e of
                 Authorized \<Rightarrow> s
               | Denied \<Rightarrow> s\<lparr>camera_error_message := Some msg_permission_off\<rparr>
               | Restricted \<Rightarrow> s\<lparr>camera_error_message := Some msg_permission_off\<rparr>
               | NotDetermined \<Rightarrow>
                   (if \<not> permission_requested s then s\<lparr>permission_requested := True\<rparr> else s)))"

text \<open>\<open>_camera_permission_denied\<close> (lines 288 to 304).\<close>

definition camera_permission_denied :: "env \<Rightarrow> state \<Rightarrow> bool \<times> state" where
  "camera_permission_denied e s =
     (if \<not> is_darwin e then (False, s)
      else if \<not> avfoundation_importable e
      then (False, s\<lparr>camera_error_message := Some msg_no_avfoundation\<rparr>)
      else (authorization_status e \<in> {Denied, Restricted}, s))"

text \<open>\<open>_open_camera\<close> (lines 238 to 250); the result is the new value for \<open>cap\<close>.\<close>

definition open_camera :: "env \<Rightarrow> state \<Rightarrow> capture option \<times> state" where
  "open_camera e s0 =
     (case camera_permission_denied e (s0\<lparr>open_attempts := open_attempts s0 + 1\<rparr>) of
        (denied, s) \<Rightarrow>
          if denied then (None, s\<lparr>camera_error_message := Some msg_permission_off\<rparr>)
          else if avfoundation_opens e then (Some AVFoundationCapture, s)
          else if \<not> fallback_opens e
          then (None, s\<lparr>camera_error_message := Some msg_check_permission\<rparr>)
          else (Some DefaultCapture, s))"

text \<open>\<open>_validate_camera_usage_description\<close> (lines 406 to 422).\<close>

definition validate_camera_usage_description :: "env \<Rightarrow> state \<Rightarrow> bool \<times> state" where
  "validate_camera_usage_description e s =
     (if \<not> is_darwin e then (True, s)
      else if \<not> is_frozen e then (True, s)
      else (case info_plist e of
              PlistUnreadable \<Rightarrow>
                (False, s\<lparr>log := log s @ [LogException ''Info.plist read failed: %s'' [info_plist_path e]],
                          camera_error_message := Some (msg_plist_unreadable @ info_plist_path e)\<rparr>)
            | PlistNoUsageDescription \<Rightarrow>
                (False, s\<lparr>camera_error_message := Some (msg_plist_no_usage @ info_plist_path e)\<rparr>)
            | PlistOk \<Rightarrow> (True, s)))"

subsection \<open>Zoom\<close>

text \<open>\<open>zoom = self.zoom_bar.value() / 100.0\<close> (line 325).\<close>

definition zoom_factor :: "int \<Rightarrow> rat" where
  "zoom_factor v = float_div (float_of_int v) 100"

text \<open>\<open>max(1, int(n / zoom))\<close> (lines 329 and 330).\<close>

definition zoomed_size :: "nat \<Rightarrow> rat \<Rightarrow> int" where
  "zoomed_size n zoom = max 1 (py_int (float_div (float_of_int (int n)) zoom))"

text \<open>\<open>_apply_zoom\<close> (lines 324 to 334).\<close>

definition apply_zoom :: "state \<Rightarrow> 'a image \<Rightarrow> 'a image" where
  "apply_zoom s frame =
     (let zoom = zoom_factor (zoom_bar_value s)
      in if zoom \<le> 1 then frame
         else (let h = height frame;
                   w = width frame;
                   new_w = zoomed_size w zoom;
                   new_h = zoomed_size h zoom;
                   x1 = (int w - new_w) div 2;
                   y1 = (int h - new_h) div 2
               in map (\<lambda>row. py_slice row x1 (x1 + new_w)) (py_slice frame y1 (y1 + new_h))))"

subsection \<open>Segmenter\<close>

text \<open>
  \<open>_configure_mediapipe_resource_dir\<close> (lines 336 to 355). Where a call can raise,
  the result is the exception and the state reached when it was raised.
\<close>

definition set_resource_dir :: "env \<Rightarrow> pystr \<Rightarrow> string \<Rightarrow> state \<Rightarrow> (exn + unit) \<times> state" where
  "set_resource_dir e base_dir fmt s =
     (case set_resource_dir_error e of
        Some x \<Rightarrow> (Inl x, s)
      | None \<Rightarrow> (Inr (), s\<lparr>resource_dir := Some base_dir, log := log s @ [LogInfo fmt [base_dir]]\<rparr>))"

definition configure_mediapipe_resource_dir :: "env \<Rightarrow> state \<Rightarrow> (exn + unit) \<times> state" where
  "configure_mediapipe_resource_dir e s =
     (if \<not> is_darwin e \<or> \<not> is_frozen e then (Inr (), s)
      else if \<not> resource_util_importable e
      then (Inr (), s\<lparr>log := log s @ [LogException ''mediapipe resource_util import failed'' []]\<rparr>)
      else if isdir_modules_resources e
      then set_resource_dir e (resources_dir e) ''mediapipe resource dir set to %s'' s
      else if isdir_modules_frameworks e
      then set_resource_dir e (frameworks_dir e) ''mediapipe resource dir set to %s'' s
      else (Inr (), s))"

text \<open>The search for the model file (lines 372 to 376).\<close>

definition found_base :: "env \<Rightarrow> pystr option" where
  "found_base e =
     (if isfile_binary_resources e then Some (resources_dir e)
      else if isfile_binary_frameworks e then Some (frameworks_dir e)
      else None)"

text \<open>Line 391.\<close>

definition construct_segmenter :: "env \<Rightarrow> state \<Rightarrow> (exn + bool) \<times> state" where
  "construct_segmenter e s =
     (case new_segmenter e of
        Inl x \<Rightarrow> (Inl x, s)
      | Inr seg \<Rightarrow> (Inr True, s\<lparr>segmenter := Some seg\<rparr>))"

text \<open>The body of the \<open>try\<close> in \<open>_ensure_segmenter_ready\<close> (lines 361 to 392).\<close>

definition segmenter_try :: "env \<Rightarrow> state \<Rightarrow> (exn + bool) \<times> state" where
  "segmenter_try e s =
     (case configure_mediapipe_resource_dir e s of
        (Inl x, s1) \<Rightarrow> (Inl x, s1)
      | (Inr u, s1) \<Rightarrow>
          if is_darwin e \<and> is_frozen e
          then (case found_base e of
                  Some base \<Rightarrow>
                    if \<not> resource_util_importable e then (Inl ImportError, s1)
                    else (case set_resource_dir e base ''mediapipe resource dir forced to %s'' s1 of
                            (Inl x, s2) \<Rightarrow> (Inl x, s2)
                          | (Inr u, s2) \<Rightarrow> construct_segmenter e s2)
                | None \<Rightarrow>
                    (let m = msg_model_not_found (resources_dir e) (frameworks_dir e)
                     in (Inr False, render_placeholder e m (s1\<lparr>camera_error_message := Some m\<rparr>))))
          else construct_segmenter e s1)"

text \<open>\<open>_ensure_segmenter_ready\<close> (lines 357 to 404).\<close>

definition ensure_segmenter_ready :: "env \<Rightarrow> state \<Rightarrow> bool \<times> state" where
  "ensure_segmenter_ready e s =
     (if segmenter s \<noteq> None then (True, s)
      else (case segmenter_try e s of
              (Inr ok, s1) \<Rightarrow> (ok, s1)
            | (Inl FileNotFoundError, s1) \<Rightarrow>
                (False, render_placeholder e msg_model_missing
                          (s1\<lparr>camera_error_message := Some msg_model_missing\<rparr>))
            | (Inl x, s1) \<Rightarrow>
                (False, render_placeholder e msg_segmenter_init_failed
                          (s1\<lparr>log := log s1 @ [LogException ''segmenter init failed'' []],
                              camera_error_message := Some msg_segmenter_init_failed\<rparr>))))"

subsection \<open>The tick\<close>

text \<open>\<open>self.camera_error_message or "..."\<close> (line 190).\<close>

definition message_or_default :: "pystr option \<Rightarrow> pystr" where
  "message_or_default m =
     (case m of None \<Rightarrow> msg_cannot_open
      | Some t \<Rightarrow> if t = [] then msg_cannot_open else t)"

text \<open>Lines 185 to 191, the branch taken while there is no opened capture.\<close>

definition retry_camera :: "env \<Rightarrow> state \<Rightarrow> state" where
  "retry_camera e s =
     (let s1 = s\<lparr>open_retry_counter := open_retry_counter s + 1\<rparr>;
          s2 = (if open_retry_counter s1 mod 30 = 0
                then (case open_camera e (ensure_camera_permission e s1) of
                        (c, s') \<Rightarrow> s'\<lparr>cap := c\<rparr>)
                else s1)
      in render_placeholder e (message_or_default (camera_error_message s2)) s2)"

text \<open>Lines 205 to 214, the image with the mask as its alpha channel.\<close>

definition cutout_image :: "rgb image \<Rightarrow> f32 image \<Rightarrow> exn + qimage" where
  "cutout_image img msk =
     (case dstack img (mask_alpha msk) of
        Inl x \<Rightarrow> Inl x
      | Inr px \<Rightarrow> Inr (RGBA8888 px))"

text \<open>
  The body of the \<open>try\<close> in \<open>update_frame\<close> (lines 185 to 221): the exception that
  leaves it, if any, and the state reached.
\<close>

definition update_frame_body :: "env \<Rightarrow> state \<Rightarrow> exn option \<times> state" where
  "update_frame_body e s =
     (if cap s = None \<or> \<not> cap_isOpened e then (None, retry_camera e s)
      else (case cap_read e of
              Inl x \<Rightarrow> (Some x, s)
            | Inr (success, frame0) \<Rightarrow>
                if \<not> success then (None, s)
                else (let frame1 = cv_flip frame0;
                          target_w = cfg_width (config s);
                          target_h = cfg_height (config s);
                          frame2 = apply_zoom s frame1
                      in case cv_resize e frame2 target_w target_h of
                           Inl x \<Rightarrow> (Some x, s)
                         | Inr frame \<Rightarrow>
                             if cutout_enabled s
                             then (case ensure_segmenter_ready e s of
                                     (ready, s1) \<Rightarrow>
                                       if \<not> ready then (None, s1)
                                       else (let img = cvtColor_BGR2RGB frame
                                             in case segmenter_process e img of
                                                  Inl x \<Rightarrow> (Some x, s1)
                                                | Inr None \<Rightarrow> (None, s1)
                                                | Inr (Some msk) \<Rightarrow>
                                                    (case cutout_image img msk of
                                                       Inl x \<Rightarrow> (Some x, s1)
                                                     | Inr qimg \<Rightarrow>
                                                         (None, s1\<lparr>pixmap := Some qimg\<rparr>))))
                             else (None, s\<lparr>pixmap := Some (RGB888 (cvtColor_BGR2RGB frame))\<rparr>))))"

text \<open>\<open>update_frame\<close> (lines 183 to 224), with its handler.\<close>

definition update_frame :: "env \<Rightarrow> state \<Rightarrow> state" where
  "update_frame e s =
     (case update_frame_body e s of
        (None, s1) \<Rightarrow> s1
      | (Some x, s1) \<Rightarrow>
          render_placeholder e msg_generic_error
            (s1\<lparr>log := log s1 @ [LogException ''update_frame failed'' []]\<rparr>))"

subsection \<open>Controls\<close>

text \<open>\<open>toggle_cutout\<close> (lines 311 to 318).\<close>

definition set_cutout_text :: "state \<Rightarrow> state" where
  "set_cutout_text s =
     s\<lparr>cutout_button_text := (if cutout_enabled s then text_cutout_on else text_cutout_off)\<rparr>"

definition toggle_cutout :: "env \<Rightarrow> state \<Rightarrow> state" where
  "toggle_cutout e s =
     (if \<not> cutout_enabled s
      then (case ensure_segmenter_ready e s of
              (ready, s1) \<Rightarrow>
                if \<not> ready then s1
                else set_cutout_text (s1\<lparr>cutout_enabled := True\<rparr>))
      else set_cutout_text (s\<lparr>cutout_enabled := False\<rparr>))"

text \<open>\<open>toggle_shape\<close> (lines 306 to 309); the clip of the label follows \<open>shape\<close>.\<close>

definition toggle_shape :: "state \<Rightarrow> state" where
  "toggle_shape s =
     (let s1 = s\<lparr>shape := (if shape s = Square then Circle else Square)\<rparr>
      in s1\<lparr>shape_button_text :=
               (if shape s1 = Circle then text_shape_circle else text_shape_square)\<rparr>)"

text \<open>
  The user moves the scroll bar. \<open>on_zoom_change\<close> (lines 320 to 322) then only
  rewrites the zoom label, which is not part of the state.
\<close>

definition zoom_bar_moved :: "int \<Rightarrow> state \<Rightarrow> state" where
  "zoom_bar_moved v s = s\<lparr>zoom_bar_value := v\<rparr>"

subsection \<open>Start and run\<close>

text \<open>
  \<open>__init__\<close> (lines 34 to 132). The call of line 121 is outside any \<open>try\<close>: an
  exception there leaves the constructor.
\<close>

definition fields0 :: "app_config \<Rightarrow> state" where
  "fields0 c =
     \<lparr>config = c, shape = Square, cutout_enabled = False, camera_error_message = None,
      permission_requested = False, open_retry_counter = 0, cap = None, segmenter = None,
      zoom_bar_value = 200, shape_button_text = text_shape_square,
      cutout_button_text = text_cutout_off, pixmap = None, debug_text = None, log = [],
      resource_dir = None, permission_checks = 0, open_attempts = 0\<rparr>"

definition init :: "app_config \<Rightarrow> env \<Rightarrow> exn + state" where
  "init c e =
     (let s1 = ensure_camera_permission e (fields0 c)
      in case validate_camera_usage_description e s1 of
           (ok, s2) \<Rightarrow>
             (let s3 = (if ok then (case open_camera e s2 of (h, s') \<Rightarrow> s'\<lparr>cap := h\<rparr>)
                        else s2\<lparr>cap := None\<rparr>)
              in case configure_mediapipe_resource_dir e s3 of
                   (Inl x, s4) \<Rightarrow> Inl x
                 | (Inr u, s4) \<Rightarrow> Inr (s4\<lparr>segmenter := None\<rparr>)))"

text \<open>The events that the running widget handles, each with what the world answers.\<close>

datatype event =
    Tick env
  | ToggleCutout env
  | ToggleShape
  | ZoomBar int

fun handle :: "event \<Rightarrow> state \<Rightarrow> state" where
  "handle (Tick e) s = update_frame e s"
| "handle (ToggleCutout e) s = toggle_cutout e s"
| "handle ToggleShape s = toggle_shape s"
| "handle (ZoomBar v) s = zoom_bar_moved v s"

fun run :: "event list \<Rightarrow> state \<Rightarrow> state" where
  "run [] s = s"
| "run (ev # evs) s = run evs (handle ev s)"

fun run_ticks :: "env list \<Rightarrow> state \<Rightarrow> state" where
  "run_ticks [] s = s"
| "run_ticks (e # es) s = run_ticks es (update_frame e s)"

section \<open>A sample environment\<close>

text \<open>
  A small world to run the definitions in: a 4 by 2 frame, a nearest-neighbour
  resampling for \<open>cv2.resize\<close>, and a segmenter that finds the foreground in the left
  half of each row.
\<close>

definition example_frame :: "bgr image" where
  "example_frame = [[(1, 2, 3), (4, 5, 6), (7, 8, 9), (10, 11, 12)],
                    [(13, 14, 15), (16, 17, 18), (19, 20, 21), (22, 23, 24)]]"

definition example_resize :: "bgr image \<Rightarrow> nat \<Rightarrow> nat \<Rightarrow> exn + bgr image" where
  "example_resize f w h =
     (if height f = 0 \<or> width f = 0 \<or> w = 0 \<or> h = 0 then Inl (OtherException 0)
      else Inr (map (\<lambda>y. map (\<lambda>x. f ! (y * height f div h) ! (x * width f div w)) [0..<w])
                  [0..<h]))"

definition example_process :: "rgb image \<Rightarrow> exn + f32 image option" where
  "example_process img =
     Inr (Some (map (\<lambda>row. map (\<lambda>x. if 2 * x < length row then Finite (3 / 4) else Finite (1 / 4))
                                [0..<length row]) img))"

definition example_env :: env where
  "example_env =
     \<lparr>is_darwin = False, is_frozen = False, avfoundation_importable = False,
      authorization_status = Authorized, avfoundation_opens = False, fallback_opens = True,
      cap_isOpened = True, cap_read = Inr (True, example_frame), cv_resize = example_resize,
      segmenter_process = example_process, debug_text_writable = True,
      resource_util_importable = True, resources_dir = ascii ''/A/Resources'',
      frameworks_dir = ascii ''/A/Frameworks'', isdir_modules_resources = False,
      isdir_modules_frameworks = False, isfile_binary_resources = False,
      isfile_binary_frameworks = False, set_resource_dir_error = None,
      new_segmenter = Inr (SelfieSegmentation 1), info_plist_path = ascii ''/A/Info.plist'',
      info_plist = PlistOk\<rparr>"

definition example_config :: app_config where
  "example_config = AppConfig\<lparr>cfg_width := 2, cfg_height := 1\<rparr>"

text \<open>The state in which the widget starts in this environment.\<close>

definition example_state :: state where
  "example_state =
     (fields0 example_config)\<lparr>cap := Some DefaultCapture, permission_checks := 1,
                               open_attempts := 1\<rparr>"

text \<open>The same world as a frozen macOS application whose bundle lacks the model.\<close>

definition example_env_no_model :: env where
  "example_env_no_model = example_env\<lparr>is_darwin := True, is_frozen := True\<rparr>"

text \<open>The same world with no camera that opens.\<close>

definition example_env_no_camera :: env where
  "example_env_no_camera = example_env\<lparr>fallback_opens := False\<rparr>"

text \<open>The same world with a capture whose read raises.\<close>

definition example_env_read_raises :: env where
  "example_env_read_raises = example_env\<lparr>cap_read := Inl (OtherException 0)\<rparr>"

section \<open>Lemmas on the placeholder\<close>

lemma put_lines_append: "put_lines canvas y ls = canvas @ put_lines [] y ls"
proof (induction ls arbitrary: canvas y)
  case Nil
  show ?case by simp
next
  case (Cons l ls)
  have "put_lines canvas y (l # ls) = put_lines (canvas @ [(take 64 l, 10, y)]) (y + 26) ls"
    by simp
  also have "\<dots> = (canvas @ [(take 64 l, 10, y)]) @ put_lines [] (y + 26) ls"
    by (rule Cons.IH)
  also have "\<dots> = canvas @ put_lines [(take 64 l, 10, y)] (y + 26) ls"
    by (simp add: Cons.IH [of "[(take 64 l, 10, y)]"])
  finally show ?case by simp
qed

lemma put_lines_Cons:
  "put_lines [] y (l # ls) = (take 64 l, 10, y) # put_lines [] (y + 26) ls"
  using put_lines_append [of "[(take 64 l, 10, y)]" "y + 26" ls] by simp

lemma length_put_lines: "length (put_lines [] y ls) = length ls"
  by (induction ls arbitrary: y) (simp_all add: put_lines_Cons del: put_lines.simps(2))

lemma nth_put_lines:
  "i < length ls \<Longrightarrow> put_lines [] y ls ! i = (take 64 (ls ! i), 10, y + 26 * int i)"
proof (induction ls arbitrary: y i)
  case Nil
  then show ?case by simp
next
  case (Cons l ls)
  show ?case
  proof (cases i)
    case 0
    then show ?thesis by (simp add: put_lines_Cons del: put_lines.simps(2))
  next
    case (Suc j)
    with Cons.prems have "j < length ls" by simp
    from Cons.IH [OF this, of "y + 26"] Suc show ?thesis
      by (simp add: put_lines_Cons algebra_simps del: put_lines.simps(2))
  qed
qed

lemma pixmap_render_placeholder:
  "pixmap (render_placeholder e message s) =
     Some (Placeholder (cfg_width (config s)) (cfg_height (config s))
       (put_lines [] 24 (take 6 (if message \<noteq> [] then splitlines message else [ascii ''error'']))))"
  by (simp add: render_placeholder_def write_debug_text_def Let_def)

section \<open>The zoom transform\<close>

text \<open>
  Claim C2. For every frame and every zoom factor that is at most 1.0, the zoom
  transform returns the frame it was given, unchanged.
\<close>

theorem apply_zoom_identity:
  "zoom_factor (zoom_bar_value s) \<le> 1 \<Longrightarrow> apply_zoom s frame = frame"
  by (simp add: apply_zoom_def)

theorem apply_zoom_identity_witness:
  "zoom_factor (zoom_bar_value (zoom_bar_moved 100 (fields0 AppConfig))) \<le> 1 \<and>
   apply_zoom (zoom_bar_moved 100 (fields0 AppConfig)) example_frame = example_frame"
proof -
  have z: "zoom_factor 100 = 1"
    by code_simp
  have h: "zoom_factor (zoom_bar_value (zoom_bar_moved 100 (fields0 AppConfig))) \<le> 1"
    by (simp add: zoom_bar_moved_def z)
  from h apply_zoom_identity [OF h, of example_frame] show ?thesis
    by simp
qed

section \<open>The placeholder\<close>

text \<open>
  Claim C7. For every message the placeholder holds one \<open>putText\<close> call for each of
  the first six lines of the message and none for the lines after them, the text of a
  call is the first 64 characters of its line, the calls start at \<open>(10, 24)\<close> and are
  26 pixels apart on a canvas of the size of the label; for the empty message the
  placeholder holds the single line \<open>error\<close>.
\<close>

theorem render_placeholder_lines:
  "(\<exists>canvas. pixmap (render_placeholder e message s) =
        Some (Placeholder (cfg_width (config s)) (cfg_height (config s)) canvas) \<and>
      (message \<noteq> [] \<longrightarrow>
         length canvas = min 6 (length (splitlines message)) \<and>
         (\<forall>i < length canvas.
            canvas ! i = (take 64 (splitlines message ! i), 10, 24 + 26 * int i))) \<and>
      (message = [] \<longrightarrow> canvas = [(ascii ''error'', 10, 24)]))"
proof -
  let ?ls = "take 6 (if message \<noteq> [] then splitlines message else [ascii ''error''])"
  have "message \<noteq> [] \<longrightarrow> length (put_lines [] 24 ?ls) = min 6 (length (splitlines message))"
    by (simp add: length_put_lines min.commute)
  moreover have "message \<noteq> [] \<longrightarrow> (\<forall>i < length (put_lines [] 24 ?ls).
      put_lines [] 24 ?ls ! i = (take 64 (splitlines message ! i), 10, 24 + 26 * int i))"
    by (simp add: length_put_lines nth_put_lines)
  moreover have "message = [] \<longrightarrow> put_lines [] 24 ?ls = [(ascii ''error'', 10, 24)]"
    by (simp add: ascii_def)
  ultimately show ?thesis
    unfolding pixmap_render_placeholder by blast
qed

theorem render_placeholder_lines_witness:
  "[97, 10, 98] \<noteq> ([] :: pystr) \<and>
   (\<exists>canvas. pixmap (render_placeholder example_env [97, 10, 98] (fields0 AppConfig)) =
        Some (Placeholder 320 320 canvas) \<and>
      length canvas = 2 \<and> canvas ! 0 = ([97], 10, 24) \<and> canvas ! 1 = ([98], 10, 50))"
proof -
  have sl: "splitlines [97, 10, 98] = [[97], [98]]"
    by (simp add: splitlines_def is_linebreak_def)
  from render_placeholder_lines [of example_env "[97, 10, 98]" "fields0 AppConfig"]
  obtain canvas where
    p: "pixmap (render_placeholder example_env [97, 10, 98] (fields0 AppConfig)) =
          Some (Placeholder (cfg_width (config (fields0 AppConfig)))
                  (cfg_height (config (fields0 AppConfig))) canvas)"
    and l: "length canvas = min 6 (length (splitlines [97, 10, 98]))"
    and n: "\<forall>i < length canvas.
              canvas ! i = (take 64 (splitlines [97, 10, 98] ! i), 10, 24 + 26 * int i)"
    by auto
  from l have l2: "length canvas = 2"
    by (simp add: sl)
  from n l2 have "canvas ! 0 = ([97], 10, 24)" "canvas ! 1 = ([98], 10, 50)"
    by (simp_all add: sl)
  with p l2 show ?thesis
    by (simp add: fields0_def AppConfig_def)
qed

section \<open>Ticks\<close>

lemma update_frame_read_fails:
  "cap s \<noteq> None \<Longrightarrow> cap_isOpened e \<Longrightarrow> cap_read e = Inr (False, fr) \<Longrightarrow> update_frame e s = s"
  by (auto simp add: update_frame_def update_frame_body_def)

text \<open>
  Claim C5. A tick in which the capture is opened but the read reports failure leaves
  the whole state as it was: the capture, the error message, the log and the pixmap of
  the label are unchanged, and the handler is not entered. This holds for any number of
  such ticks in a row.
\<close>

theorem read_failure_no_op:
  "cap s \<noteq> None \<Longrightarrow> \<forall>e \<in> set es. cap_isOpened e \<and> (\<exists>fr. cap_read e = Inr (False, fr)) \<Longrightarrow>
     run_ticks es s = s"
proof (induction es)
  case Nil
  show ?case by simp
next
  case (Cons e es)
  from Cons.prems obtain fr where "cap_isOpened e" "cap_read e = Inr (False, fr)"
    by auto
  with Cons.prems(1) have "update_frame e s = s"
    by (rule update_frame_read_fails)
  with Cons show ?case by simp
qed

theorem read_failure_no_op_witness:
  "cap ((fields0 AppConfig)\<lparr>cap := Some DefaultCapture\<rparr>) \<noteq> None \<and>
   cap_isOpened (example_env\<lparr>cap_read := Inr (False, [])\<rparr>) \<and>
   cap_read (example_env\<lparr>cap_read := Inr (False, [])\<rparr>) = Inr (False, []) \<and>
   run_ticks (replicate 3 (example_env\<lparr>cap_read := Inr (False, [])\<rparr>))
     ((fields0 AppConfig)\<lparr>cap := Some DefaultCapture\<rparr>) =
   (fields0 AppConfig)\<lparr>cap := Some DefaultCapture\<rparr>"
proof -
  have c: "cap ((fields0 AppConfig)\<lparr>cap := Some DefaultCapture\<rparr>) \<noteq> None"
    by simp
  have r: "\<forall>e \<in> set (replicate 3 (example_env\<lparr>cap_read := Inr (False, [])\<rparr>)).
      cap_isOpened e \<and> (\<exists>fr. cap_read e = Inr (False, fr))"
    by (simp add: example_env_def)
  from c r read_failure_no_op [OF c r] show ?thesis
    by (simp add: example_env_def)
qed

section \<open>The segmenter and the cutout toggle\<close>

lemma write_debug_text_fields [simp]:
  "config (write_debug_text e m s) = config s"
  "cutout_enabled (write_debug_text e m s) = cutout_enabled s"
  "segmenter (write_debug_text e m s) = segmenter s"
  "cap (write_debug_text e m s) = cap s"
  "camera_error_message (write_debug_text e m s) = camera_error_message s"
  "open_retry_counter (write_debug_text e m s) = open_retry_counter s"
  "open_attempts (write_debug_text e m s) = open_attempts s"
  "permission_checks (write_debug_text e m s) = permission_checks s"
  by (simp_all add: write_debug_text_def)

lemma render_placeholder_fields [simp]:
  "config (render_placeholder e m s) = config s"
  "cutout_enabled (render_placeholder e m s) = cutout_enabled s"
  "segmenter (render_placeholder e m s) = segmenter s"
  "cap (render_placeholder e m s) = cap s"
  "camera_error_message (render_placeholder e m s) = camera_error_message s"
  "open_retry_counter (render_placeholder e m s) = open_retry_counter s"
  "open_attempts (render_placeholder e m s) = open_attempts s"
  "permission_checks (render_placeholder e m s) = permission_checks s"
  by (simp_all add: render_placeholder_def Let_def)

lemma set_resource_dir_fields:
  "set_resource_dir e b f s = (r, s1) \<Longrightarrow>
     config s1 = config s \<and> cutout_enabled s1 = cutout_enabled s \<and> segmenter s1 = segmenter s \<and>
     camera_error_message s1 = camera_error_message s \<and> pixmap s1 = pixmap s"
  by (auto simp: set_resource_dir_def split: option.splits)

lemma configure_fields:
  "configure_mediapipe_resource_dir e s = (r, s1) \<Longrightarrow>
     config s1 = config s \<and> cutout_enabled s1 = cutout_enabled s \<and> segmenter s1 = segmenter s \<and>
     camera_error_message s1 = camera_error_message s \<and> pixmap s1 = pixmap s"
  by (auto simp: configure_mediapipe_resource_dir_def split: if_splits dest: set_resource_dir_fields)

lemma construct_segmenter_fields:
  "construct_segmenter e s = (r, s1) \<Longrightarrow>
     (\<exists>x. r = Inl x \<and> s1 = s) \<or> (\<exists>g. r = Inr True \<and> s1 = s\<lparr>segmenter := Some g\<rparr>)"
  by (auto simp: construct_segmenter_def split: sum.splits)

lemma segmenter_try_fields:
  assumes "segmenter_try e s = (r, s1)"
  shows "config s1 = config s" and "cutout_enabled s1 = cutout_enabled s"
    and "r = Inr True \<Longrightarrow> segmenter s1 \<noteq> None"
    and "r \<noteq> Inr True \<Longrightarrow> segmenter s1 = segmenter s"
    and "r = Inr False \<Longrightarrow> camera_error_message s1 =
           Some (msg_model_not_found (resources_dir e) (frameworks_dir e)) \<and>
         pixmap s1 = pixmap (render_placeholder e (msg_model_not_found (resources_dir e) (frameworks_dir e)) s)"
  using assms
  by (auto simp: segmenter_try_def Let_def pixmap_render_placeholder
      split: prod.splits sum.splits if_splits option.splits
      dest!: configure_fields set_resource_dir_fields construct_segmenter_fields)


lemma ensure_segmenter_ready_Some:
  "segmenter s \<noteq> None \<Longrightarrow> ensure_segmenter_ready e s = (True, s)"
  by (simp add: ensure_segmenter_ready_def)


lemma ensure_segmenter_ready_cases:
  assumes "ensure_segmenter_ready e s = (ok, s1)"
  obtains (ready) "segmenter s \<noteq> None" "ok" "s1 = s"
  | (tried) s2 r where "segmenter s = None" "segmenter_try e s = (Inr r, s2)" "ok = r" "s1 = s2"
  | (missing) s2 where "segmenter s = None" "segmenter_try e s = (Inl FileNotFoundError, s2)"
      "\<not> ok"
      "s1 = render_placeholder e msg_model_missing
              (s2\<lparr>camera_error_message := Some msg_model_missing\<rparr>)"
  | (failed) s2 x where "segmenter s = None" "segmenter_try e s = (Inl x, s2)"
      "x \<noteq> FileNotFoundError" "\<not> ok"
      "s1 = render_placeholder e msg_segmenter_init_failed
              (s2\<lparr>log := log s2 @ [LogException ''segmenter init failed'' []],
                  camera_error_message := Some msg_segmenter_init_failed\<rparr>)"
proof (cases "segmenter s = None")
  case False
  with assms have "ok" "s1 = s" by (auto simp: ensure_segmenter_ready_def)
  with False show ?thesis by (rule ready)
next
  case True
  obtain r s2 where t: "segmenter_try e s = (r, s2)" by (cases "segmenter_try e s")
  show ?thesis
  proof (cases r)
    case (Inr b)
    with assms True t have "ok = b" "s1 = s2" by (auto simp: ensure_segmenter_ready_def)
    with True t Inr show ?thesis by (auto intro: tried)
  next
    case (Inl x)
    show ?thesis
    proof (cases "x = FileNotFoundError")
      case xf: True
      with assms True t Inl show ?thesis
        by (auto simp: ensure_segmenter_ready_def intro: missing)
    next
      case xf: False
      with assms True t Inl show ?thesis
        by (cases x) (auto simp: ensure_segmenter_ready_def intro: failed)
    qed
  qed
qed


lemma ensure_segmenter_ready_fields:
  assumes "ensure_segmenter_ready e s = (ok, s1)"
  shows "config s1 = config s \<and> cutout_enabled s1 = cutout_enabled s \<and>
         (ok \<longrightarrow> segmenter s1 \<noteq> None) \<and> (\<forall>g. segmenter s = Some g \<longrightarrow> segmenter s1 = Some g)"
  using assms
proof (cases rule: ensure_segmenter_ready_cases)
  case ready
  then show ?thesis by auto
next
  case (tried s2 r)
  from segmenter_try_fields [OF tried(2)] tried show ?thesis by auto
next
  case (missing s2)
  from segmenter_try_fields(1,2) [OF missing(2)] missing show ?thesis by auto
next
  case (failed s2 x)
  from segmenter_try_fields(1,2) [OF failed(2)] failed show ?thesis by auto
qed

lemma messages_not_empty:
  "msg_model_not_found a b \<noteq> []" "msg_model_missing \<noteq> []" "msg_segmenter_init_failed \<noteq> []"
  "msg_generic_error \<noteq> []" "msg_cannot_open \<noteq> []"
  by (simp_all add: msg_model_not_found_def msg_model_missing_def msg_segmenter_init_failed_def
      msg_generic_error_def msg_cannot_open_def ascii_def)

lemma ensure_segmenter_ready_fails:
  assumes "ensure_segmenter_ready e s = (False, s1)"
  shows "\<exists>m. m \<in> {msg_model_not_found (resources_dir e) (frameworks_dir e),
                  msg_model_missing, msg_segmenter_init_failed} \<and>
             camera_error_message s1 = Some m \<and>
             pixmap s1 = Some (Placeholder (cfg_width (config s)) (cfg_height (config s))
                                 (put_lines [] 24 (take 6 (splitlines m))))"
  using assms
proof (cases rule: ensure_segmenter_ready_cases)
  case ready
  then show ?thesis by simp
next
  case (tried s2 r)
  with segmenter_try_fields(5) [OF tried(2)] show ?thesis
    by (simp add: pixmap_render_placeholder messages_not_empty)
next
  case (missing s2)
  with segmenter_try_fields(1) [OF missing(2)] show ?thesis
    by (simp add: pixmap_render_placeholder messages_not_empty)
next
  case (failed s2 x)
  with segmenter_try_fields(1) [OF failed(2)] show ?thesis
    by (simp add: pixmap_render_placeholder messages_not_empty)
qed

text \<open>
  Claim C4. While cutout is disabled, \<open>toggle_cutout\<close> calls
  \<open>_ensure_segmenter_ready\<close> within the same event. If that fails, the toggle is
  rejected: \<open>cutout_enabled\<close> stays false, and the label shows the placeholder of the
  error message that the failed initialisation stored. If it succeeds,
  \<open>cutout_enabled\<close> becomes true and the segmenter exists.
\<close>

theorem toggle_cutout_on:
  assumes "\<not> cutout_enabled s" and "ensure_segmenter_ready e s = (ok, s1)"
  shows "(ok \<longrightarrow> toggle_cutout e s = set_cutout_text (s1\<lparr>cutout_enabled := True\<rparr>) \<and>
                 cutout_enabled (toggle_cutout e s) \<and> segmenter (toggle_cutout e s) \<noteq> None) \<and>
         (\<not> ok \<longrightarrow> toggle_cutout e s = s1 \<and> \<not> cutout_enabled (toggle_cutout e s) \<and>
            (\<exists>m. m \<in> {msg_model_not_found (resources_dir e) (frameworks_dir e),
                       msg_model_missing, msg_segmenter_init_failed} \<and>
                 camera_error_message (toggle_cutout e s) = Some m \<and>
                 pixmap (toggle_cutout e s) =
                   Some (Placeholder (cfg_width (config s)) (cfg_height (config s))
                           (put_lines [] 24 (take 6 (splitlines m))))))"
proof (cases ok)
  case True
  with assms have t: "toggle_cutout e s = set_cutout_text (s1\<lparr>cutout_enabled := True\<rparr>)"
    by (simp add: toggle_cutout_def)
  from ensure_segmenter_ready_fields [OF assms(2)] True have "segmenter s1 \<noteq> None"
    by simp
  with t True show ?thesis
    by (simp add: set_cutout_text_def)
next
  case False
  with assms have t: "toggle_cutout e s = s1"
    by (simp add: toggle_cutout_def)
  from ensure_segmenter_ready_fields [OF assms(2)] assms(1) have c: "\<not> cutout_enabled s1"
    by simp
  from assms(2) False have "ensure_segmenter_ready e s = (False, s1)"
    by simp
  from ensure_segmenter_ready_fails [OF this] t c False show ?thesis
    by simp
qed


theorem toggle_cutout_on_witness:
  "\<not> cutout_enabled example_state \<and>
   \<not> fst (ensure_segmenter_ready example_env_no_model example_state) \<and>
   toggle_cutout example_env_no_model example_state =
     snd (ensure_segmenter_ready example_env_no_model example_state) \<and>
   \<not> cutout_enabled (toggle_cutout example_env_no_model example_state) \<and>
   camera_error_message (toggle_cutout example_env_no_model example_state) =
     Some (msg_model_not_found (ascii ''/A/Resources'') (ascii ''/A/Frameworks''))"
proof -
  let ?e = example_env_no_model and ?s = example_state
  have h1: "\<not> cutout_enabled ?s"
    by (simp add: example_state_def fields0_def)
  have h2: "ensure_segmenter_ready ?e ?s =
      (fst (ensure_segmenter_ready ?e ?s), snd (ensure_segmenter_ready ?e ?s))"
    by simp
  have tr: "segmenter_try ?e ?s =
      (Inr False, render_placeholder ?e
         (msg_model_not_found (ascii ''/A/Resources'') (ascii ''/A/Frameworks''))
         (?s\<lparr>camera_error_message :=
               Some (msg_model_not_found (ascii ''/A/Resources'') (ascii ''/A/Frameworks''))\<rparr>))"
    by (simp add: segmenter_try_def configure_mediapipe_resource_dir_def found_base_def
        example_env_no_model_def example_env_def Let_def)
  have seg: "segmenter ?s = None"
    by (simp add: example_state_def fields0_def)
  have h3: "\<not> fst (ensure_segmenter_ready ?e ?s)"
    by (simp add: ensure_segmenter_ready_def seg tr)
  have msg: "camera_error_message (snd (ensure_segmenter_ready ?e ?s)) =
      Some (msg_model_not_found (ascii ''/A/Resources'') (ascii ''/A/Frameworks''))"
    by (simp add: ensure_segmenter_ready_def seg tr)
  from toggle_cutout_on [OF h1 h2] h3
  have t: "toggle_cutout ?e ?s = snd (ensure_segmenter_ready ?e ?s)"
    and c: "\<not> cutout_enabled (toggle_cutout ?e ?s)"
    by blast+
  from t msg have "camera_error_message (toggle_cutout ?e ?s) =
      Some (msg_model_not_found (ascii ''/A/Resources'') (ascii ''/A/Frameworks''))"
    by simp
  with h1 h3 t c show ?thesis
    by blast
qed

section \<open>Lemmas on the tick\<close>

lemma log_render_placeholder: "set (log s) \<subseteq> set (log (render_placeholder e m s))"
  by (auto simp: render_placeholder_def write_debug_text_def Let_def)

lemma splitlines_msg_generic_error: "splitlines msg_generic_error = [msg_generic_error]"
  by (simp add: splitlines_def msg_generic_error_def is_linebreak_def)

lemma ensure_camera_permission_fields [simp]:
  "config (ensure_camera_permission e s) = config s"
  "cutout_enabled (ensure_camera_permission e s) = cutout_enabled s"
  "segmenter (ensure_camera_permission e s) = segmenter s"
  "cap (ensure_camera_permission e s) = cap s"
  "open_retry_counter (ensure_camera_permission e s) = open_retry_counter s"
  "open_attempts (ensure_camera_permission e s) = open_attempts s"
  "permission_checks (ensure_camera_permission e s) = Suc (permission_checks s)"
  by (simp_all add: ensure_camera_permission_def Let_def split: auth_status.splits)

lemma open_camera_fields [simp]:
  "config (snd (open_camera e s)) = config s"
  "cutout_enabled (snd (open_camera e s)) = cutout_enabled s"
  "segmenter (snd (open_camera e s)) = segmenter s"
  "open_retry_counter (snd (open_camera e s)) = open_retry_counter s"
  "open_attempts (snd (open_camera e s)) = Suc (open_attempts s)"
  "permission_checks (snd (open_camera e s)) = permission_checks s"
  by (simp_all add: open_camera_def camera_permission_denied_def)

lemma retry_camera_fields [simp]:
  "config (retry_camera e s) = config s"
  "cutout_enabled (retry_camera e s) = cutout_enabled s"
  "segmenter (retry_camera e s) = segmenter s"
  "open_retry_counter (retry_camera e s) = open_retry_counter s + 1"
  by (simp_all add: retry_camera_def Let_def split_beta)

end
